theory Spec2Isabelle
  imports Complex_Main
begin

section \<open>The key-value store\<close>

text \<open>
  The worker-side statistics reporter (\<^verbatim>\<open>image_get/worker/worker/stats_reporting.py\<close>)
  talks to a Redis server through a client object. The client is an external library, so
  its commands are modelled here from the Redis command reference, one constructor per
  command the repository issues.

  The keyspace is split by value type: integer strings (the target of \<^verbatim>\<open>INCR\<close>),
  sorted sets, lists, sets and the token buckets written with \<^verbatim>\<open>SET\<close>. The key families
  of the repository carry distinct prefixes, so no key is ever used at two types and the
  \<^verbatim>\<open>WRONGTYPE\<close> reply of Redis cannot arise from these commands.

  A sorted set is a list of (score, member) pairs, the representation the repository's own
  test double uses (\<^verbatim>\<open>redis.store[key].append((score, member))\<close>). \<^verbatim>\<open>ZADD\<close> keeps at most
  one pair per member. The order of the list carries no meaning. Scores are readings of
  \<^verbatim>\<open>time.monotonic()\<close>, taken as real numbers.

  The field \<open>sent\<close> records every command the server has executed, in order.
\<close>

type_synonym key = string

datatype score_bound = NegInf | Bound real

datatype command =
    INCR key
  | ZADD key real int
  | ZREMRANGEBYSCORE key score_bound real
  | RPUSH key string
  | LTRIM key int int
  | SADD key string
  | SET key real

record redis_store =
  counters :: "key \<Rightarrow> int option"
  sorted_sets :: "key \<Rightarrow> (real \<times> int) list"
  list_keys :: "key \<Rightarrow> string list"
  set_keys :: "key \<Rightarrow> string set"
  tokens :: "key \<Rightarrow> real option"
  sent :: "command list"

definition FakeRedis :: redis_store where
  "FakeRedis = \<lparr>counters = (\<lambda>k. None), sorted_sets = (\<lambda>k. []), list_keys = (\<lambda>k. []),
     set_keys = (\<lambda>k. {}), tokens = (\<lambda>k. None), sent = []\<rparr>"

definition counter :: "redis_store \<Rightarrow> key \<Rightarrow> int" where
  "counter r k = (case counters r k of None \<Rightarrow> 0 | Some n \<Rightarrow> n)"

definition zadd :: "real \<Rightarrow> int \<Rightarrow> (real \<times> int) list \<Rightarrow> (real \<times> int) list" where
  "zadd sc m zs = filter (\<lambda>(s', m'). m' \<noteq> m) zs @ [(sc, m)]"

fun in_range :: "score_bound \<Rightarrow> real \<Rightarrow> real \<Rightarrow> bool" where
  "in_range NegInf hi s = (s \<le> hi)"
| "in_range (Bound lo) hi s = (lo \<le> s \<and> s \<le> hi)"

definition zremrangebyscore ::
  "score_bound \<Rightarrow> real \<Rightarrow> (real \<times> int) list \<Rightarrow> (real \<times> int) list" where
  "zremrangebyscore lo hi zs = filter (\<lambda>(s, m). \<not> in_range lo hi s) zs"

definition ltrim :: "int \<Rightarrow> int \<Rightarrow> 'a list \<Rightarrow> 'a list" where
  "ltrim start stop xs =
     (let n = int (length xs);
          s = (if start < 0 then max (n + start) 0 else start);
          e = (if stop < 0 then n + stop else min stop (n - 1))
      in if e < s \<or> n \<le> s then [] else take (nat (e - s + 1)) (drop (nat s) xs))"

fun exec :: "command \<Rightarrow> redis_store \<Rightarrow> redis_store" where
  "exec (INCR k) r = r\<lparr>counters := (counters r)(k \<mapsto> counter r k + 1)\<rparr>"
| "exec (ZADD k sc m) r = r\<lparr>sorted_sets := (sorted_sets r)(k := zadd sc m (sorted_sets r k))\<rparr>"
| "exec (ZREMRANGEBYSCORE k lo hi) r =
     r\<lparr>sorted_sets := (sorted_sets r)(k := zremrangebyscore lo hi (sorted_sets r k))\<rparr>"
| "exec (RPUSH k v) r = r\<lparr>list_keys := (list_keys r)(k := list_keys r k @ [v])\<rparr>"
| "exec (LTRIM k start stop) r =
     r\<lparr>list_keys := (list_keys r)(k := ltrim start stop (list_keys r k))\<rparr>"
| "exec (SADD k v) r = r\<lparr>set_keys := (set_keys r)(k := insert v (set_keys r k))\<rparr>"
| "exec (SET k v) r = r\<lparr>tokens := (tokens r)(k \<mapsto> v)\<rparr>"

definition send :: "command \<Rightarrow> redis_store \<Rightarrow> redis_store" where
  "send c r = (exec c r)\<lparr>sent := sent r @ [c]\<rparr>"

text \<open>
  A pipeline queues commands and \<^verbatim>\<open>pipe.execute()\<close> runs them as one transaction, in the
  order they were queued.
\<close>

definition execute :: "command list \<Rightarrow> redis_store \<Rightarrow> redis_store" where
  "execute pipe r = foldl (\<lambda>r' c. send c r') r pipe"

section \<open>The statistics reporter\<close>

definition STATUS_60s :: string where "STATUS_60s = ''status60s:''"
definition STATUS_1HR :: string where "STATUS_1HR = ''status1hr:''"
definition STATUS_12HR :: string where "STATUS_12HR = ''status12hr:''"

definition LAST_50_REQUESTS :: string where "LAST_50_REQUESTS = ''statuslast50req:''"

definition ONE_MINUTE :: real where "ONE_MINUTE = 60"
definition ONE_HOUR :: real where "ONE_HOUR = ONE_MINUTE * 60"
definition TWELVE_HOURS :: real where "TWELVE_HOURS = ONE_HOUR * 12"

definition WINDOW_PAIRS :: "(string \<times> real) list" where
  "WINDOW_PAIRS = [(STATUS_60s, ONE_MINUTE), (STATUS_1HR, ONE_HOUR), (STATUS_12HR, TWELVE_HOURS)]"

definition ERROR_COUNT :: string where "ERROR_COUNT = ''resize_errors''"
definition TLD_ERRORS :: string where "TLD_ERRORS = ''resize_errors:''"

definition SUCCESS_COUNT :: string where "SUCCESS_COUNT = ''num_resized''"
definition TLD_SUCCESS :: string where "TLD_SUCCESS = ''num_resized:''"

definition SUCCEEDED :: int where "SUCCEEDED = 1"
definition FAILED :: int where "FAILED = 0"

definition KNOWN_TLDS :: string where "KNOWN_TLDS = ''known_tlds''"

text \<open>
  The \<^verbatim>\<open>tld\<close> argument of the reporters is the canonicaliser's result, an object with the
  fields \<^verbatim>\<open>domain\<close> and \<^verbatim>\<open>suffix\<close>. The optional \<^verbatim>\<open>code\<close> is an HTTP status (an integer) or
  the name of an exception (a string).
\<close>

record tld =
  domain :: string
  suffix :: string

datatype code = IntCode int | StrCode string

text \<open>Python's truth value of a code: a nonzero integer, a nonempty string.\<close>

fun truthy :: "code \<Rightarrow> bool" where
  "truthy (IntCode n) = (n \<noteq> 0)"
| "truthy (StrCode s) = (s \<noteq> [])"

text \<open>Python's \<^verbatim>\<open>str\<close> of a code, as the f-string formats it.\<close>

fun digits :: "nat \<Rightarrow> string" where
  "digits n =
     (if n < 10 then [''0123456789'' ! n]
      else digits (n div 10) @ [''0123456789'' ! (n mod 10)])"

declare digits.simps [simp del]

fun py_str :: "code \<Rightarrow> string" where
  "py_str (IntCode n) = (if n < 0 then ''-'' @ digits (nat (- n)) else digits (nat n))"
| "py_str (StrCode s) = s"

record stats_manager =
  redis :: redis_store
  known_tlds :: "string set"

definition StatsManager :: "redis_store \<Rightarrow> stats_manager" where
  "StatsManager r = \<lparr>redis = r, known_tlds = {}\<rparr>"

text \<open>
  \<^verbatim>\<open>_record_window_samples(pipe, domain, success)\<close>: the clock is read once, then each
  window gets the sample and is trimmed. The reading of the clock is the argument \<open>now\<close>.
\<close>

definition record_window_samples :: "command list \<Rightarrow> string \<Rightarrow> int \<Rightarrow> real \<Rightarrow> command list" where
  "record_window_samples pipe dname success now =
     pipe @ concat (map (\<lambda>(stat_key, interval).
       [ZADD (stat_key @ dname) now success,
        ZREMRANGEBYSCORE (stat_key @ dname) NegInf (now - interval)]) WINDOW_PAIRS)"

text \<open>\<^verbatim>\<open>_record_last_50_requests_sample(pipe, domain, status)\<close>.\<close>

definition record_last_50_requests_sample :: "command list \<Rightarrow> string \<Rightarrow> string \<Rightarrow> command list" where
  "record_last_50_requests_sample pipe dname status =
     pipe @ [RPUSH (LAST_50_REQUESTS @ dname) status, LTRIM (LAST_50_REQUESTS @ dname) (- 50) (- 1)]"

definition record_error :: "stats_manager \<Rightarrow> tld \<Rightarrow> code option \<Rightarrow> real \<Rightarrow> stats_manager" where
  "record_error self t code now =
     (let dname = domain t @ ''.'' @ suffix t;
          pipe0 = [INCR ERROR_COUNT, INCR (TLD_ERRORS @ dname)];
          (pipe1, affect_rate_limiting) =
            (case code of
               None \<Rightarrow> (pipe0, True)
             | Some c \<Rightarrow>
                 if truthy c
                 then (pipe0 @ [INCR (TLD_ERRORS @ dname @ '':'' @ py_str c)],
                       \<not> (c = IntCode 404 \<or> c = StrCode ''UnidentifiedImageError''))
                 else (pipe0, True));
          pipe2 = (if affect_rate_limiting
                   then record_window_samples pipe1 dname FAILED now else pipe1)
      in self\<lparr>redis := execute pipe2 (redis self)\<rparr>)"

definition record_success :: "stats_manager \<Rightarrow> tld \<Rightarrow> real \<Rightarrow> stats_manager" where
  "record_success self t now =
     (let dname = domain t @ ''.'' @ suffix t;
          pipe0 = [INCR SUCCESS_COUNT, INCR (TLD_SUCCESS @ dname)];
          pipe1 = record_window_samples pipe0 dname SUCCEEDED now
      in self\<lparr>redis := execute pipe1 (redis self)\<rparr>)"

text \<open>\<^verbatim>\<open>update_tlds\<close> sends its command directly, outside any pipeline.\<close>

definition update_tlds :: "stats_manager \<Rightarrow> string \<Rightarrow> stats_manager" where
  "update_tlds self t =
     (if t \<notin> known_tlds self
      then self\<lparr>known_tlds := insert t (known_tlds self),
                redis := send (SADD KNOWN_TLDS t) (redis self)\<rparr>
      else self)"

text \<open>A history of reporter calls on one manager, each with the clock reading it saw.\<close>

datatype reporter_call =
    RecordSuccess tld real
  | RecordError tld "code option" real
  | UpdateTlds string

fun call :: "stats_manager \<Rightarrow> reporter_call \<Rightarrow> stats_manager" where
  "call self (RecordSuccess t now) = record_success self t now"
| "call self (RecordError t c now) = record_error self t c now"
| "call self (UpdateTlds t) = update_tlds self t"

definition run :: "reporter_call list \<Rightarrow> stats_manager \<Rightarrow> stats_manager" where
  "run calls self = foldl call self calls"

text \<open>A store whose one-minute window for \<^verbatim>\<open>example.com\<close> holds one success scored at time 0.\<close>

definition stale_store :: redis_store where
  "stale_store =
     FakeRedis\<lparr>sorted_sets := (\<lambda>k. if k = ''status60s:example.com'' then [(0, 1)] else [])\<rparr>"

definition example_tld :: tld where
  "example_tld = \<lparr>domain = ''example'', suffix = ''com''\<rparr>"

text \<open>
  The shape every sliding window written by the reporter keeps: only the two outcome
  values occur as members, each at most once.
\<close>

definition window_ok :: "(real \<times> int) list \<Rightarrow> bool" where
  "window_ok zs = (snd ` set zs \<subseteq> {SUCCEEDED, FAILED} \<and> distinct (map snd zs))"

fun outcome_command :: "command \<Rightarrow> bool" where
  "outcome_command (ZADD k sc m) = (m = SUCCEEDED \<or> m = FAILED)"
| "outcome_command c = True"

section \<open>The rate regulator\<close>

text \<open>
  The regulator (\<^verbatim>\<open>crawl_monitor/rate_limit.py\<close>) is not among the sources; only its test
  (\<^verbatim>\<open>image_get/test/test_monitor.py\<close>) is. The definitions of this section follow the
  specification's sections 4.4, 4.4.1, 4.4.2 and 6. The configuration constants have no
  value in the specification, so they are fields of a record.
\<close>

text \<open>
  Modelled from the spec: the configuration of section 6 (\<^verbatim>\<open>MIN_CRAWL_RPS\<close>,
  \<^verbatim>\<open>MAX_CRAWL_RPS\<close>, \<^verbatim>\<open>MAX_CRAWL_SIZE\<close>, \<^verbatim>\<open>TEMP_HALT_MIN_SAMPLES\<close>,
  \<^verbatim>\<open>TEMP_HALT_THRESHOLD_RATIO\<close>) and the \<^verbatim>\<open>threshold_for_min\<close> of section 4.4.1.
\<close>

record config =
  MIN_CRAWL_RPS :: real
  MAX_CRAWL_RPS :: real
  MAX_CRAWL_SIZE :: real
  threshold_for_min :: real
  TEMP_HALT_MIN_SAMPLES :: nat
  TEMP_HALT_THRESHOLD_RATIO :: real

text \<open>
  Modelled from the spec: \<^verbatim>\<open>HARD_HALT_SAMPLE_SIZE\<close> (50), the width of the list of recent
  requests (section 6).
\<close>

definition HARD_HALT_SAMPLE_SIZE :: nat where "HARD_HALT_SAMPLE_SIZE = 50"

text \<open>Modelled from the spec: the prefix of the token-bucket key \<^verbatim>\<open>currtokens:{domain}\<close> (section 3).\<close>

definition CURRTOKENS :: string where "CURRTOKENS = ''currtokens:''"

text \<open>Modelled from the spec: the key of the set \<^verbatim>\<open>halted\<close> (section 3).\<close>

definition HALTED :: string where "HALTED = ''halted''"

text \<open>Modelled from the spec: the key of the set \<^verbatim>\<open>temp_halted\<close> (section 3).\<close>

definition TEMP_HALTED :: string where "TEMP_HALTED = ''temp_halted''"

text \<open>
  Modelled from the spec: \<^verbatim>\<open>compute_crawl_rate\<close> (section 4.4.1). At or below the threshold
  the rate is the minimum, at or above \<^verbatim>\<open>MAX_CRAWL_SIZE\<close> it is the maximum, and in between
  it is linear in the image count, with \<^verbatim>\<open>MAX_CRAWL_SIZE / 2\<close> mapped to
  \<^verbatim>\<open>MAX_CRAWL_RPS / 2\<close>. The specification gives no formula for the interpolation; the
  line through the origin and (\<^verbatim>\<open>MAX_CRAWL_SIZE\<close>, \<^verbatim>\<open>MAX_CRAWL_RPS\<close>) is the one that meets
  both the midpoint and the upper end.
\<close>

definition compute_crawl_rate :: "config \<Rightarrow> real \<Rightarrow> real" where
  "compute_crawl_rate cfg image_count =
     (if image_count \<le> threshold_for_min cfg then MIN_CRAWL_RPS cfg
      else if MAX_CRAWL_SIZE cfg \<le> image_count then MAX_CRAWL_RPS cfg
      else MAX_CRAWL_RPS cfg * image_count / MAX_CRAWL_SIZE cfg)"

text \<open>
  Modelled from the spec: an entry of the list of recent requests is a stringified status
  code (section 3), a nonempty string of decimal digits; \<^verbatim>\<open>"UnidentifiedImageError"\<close> is an
  entry that is no status code.
\<close>

definition is_digit :: "char \<Rightarrow> bool" where
  "is_digit c = (48 \<le> (of_char c :: nat) \<and> (of_char c :: nat) \<le> 57)"

text \<open>Modelled from the spec: the status code an entry stands for, if it stands for one.\<close>

definition status_code :: "string \<Rightarrow> nat option" where
  "status_code s =
     (if s \<noteq> [] \<and> list_all is_digit s
      then Some (foldl (\<lambda>n c. 10 * n + (of_char c - 48)) 0 s) else None)"

text \<open>
  Modelled from the spec: an entry encodes a server error when its status code is at least
  500 (section 4.4.2).
\<close>

definition is_server_error :: "string \<Rightarrow> bool" where
  "is_server_error s = (case status_code s of None \<Rightarrow> False | Some n \<Rightarrow> 500 \<le> n)"

text \<open>
  Modelled from the spec: the hard halt of section 4.4.2. The list has at least 50 entries
  and at least 50 of them encode a server error.
\<close>

definition hard_halt_trips :: "string list \<Rightarrow> bool" where
  "hard_halt_trips recent =
     (HARD_HALT_SAMPLE_SIZE \<le> length recent
      \<and> HARD_HALT_SAMPLE_SIZE \<le> length (filter is_server_error recent))"

text \<open>
  Modelled from the spec: the number of members with the value \<open>v\<close> whose score lies in the
  60-second window that ends at \<open>now\<close> (section 4.4.2).
\<close>

definition window_count :: "real \<Rightarrow> int \<Rightarrow> (real \<times> int) list \<Rightarrow> nat" where
  "window_count now v zs =
     length (filter (\<lambda>(sc, m). m = v \<and> now - ONE_MINUTE \<le> sc \<and> sc \<le> now) zs)"

text \<open>
  Modelled from the spec: the temporary halt of section 4.4.2. Members with value 0
  (failures) and value 1 (successes) in the window are counted; the breaker trips when the
  failures are at least the threshold ratio times the total and the total is at least the
  minimum number of samples.
\<close>

definition temp_halt_trips :: "config \<Rightarrow> real \<Rightarrow> (real \<times> int) list \<Rightarrow> bool" where
  "temp_halt_trips cfg now zs =
     (let failures = window_count now FAILED zs;
          total = failures + window_count now SUCCEEDED zs
      in TEMP_HALT_THRESHOLD_RATIO cfg * real total \<le> real failures
         \<and> TEMP_HALT_MIN_SAMPLES cfg \<le> total)"

text \<open>
  Modelled from the spec: a catalog entry (sections 3 and 6), with the fields the test's
  fixture gives it.
\<close>

record source =
  source_name :: string
  image_count :: int
  display_name :: string
  source_url :: string

text \<open>
  Modelled from the spec: the catalog's response (section 6), a status and the list of
  sources, as the test builds it (\<^verbatim>\<open>FakeAioResponse(status=200, body=sources)\<close>).
\<close>

record response =
  status :: nat
  body :: "source list"

text \<open>
  Modelled from the spec: steps 2a to 2c of one tick (section 4.4) for one source. The
  canonicaliser of section 4.5 rests on the public-suffix list and is the argument
  \<open>canon\<close>. A source whose domain is not in \<^verbatim>\<open>known_tlds\<close> is passed over. Otherwise the
  target rate is computed, both breakers are evaluated, a domain in either halt set gets
  the target 0, and the bucket is overwritten with the target. The store-side expiry of
  \<^verbatim>\<open>temp_halted\<close> entries happens between ticks and is not part of the tick.
\<close>

definition regulate :: "config \<Rightarrow> (string \<Rightarrow> tld) \<Rightarrow> real \<Rightarrow> redis_store \<Rightarrow> source \<Rightarrow> redis_store" where
  "regulate cfg canon now r src =
     (let t = canon (source_url src);
          dname = domain t @ ''.'' @ suffix t
      in if dname \<notin> set_keys r KNOWN_TLDS then r
         else
           let target_rps = compute_crawl_rate cfg (real_of_int (image_count src));
               r1 = (if hard_halt_trips (list_keys r (LAST_50_REQUESTS @ dname))
                     then send (SADD HALTED dname) r else r);
               r2 = (if temp_halt_trips cfg now (sorted_sets r1 (STATUS_60s @ dname))
                     then send (SADD TEMP_HALTED dname) r1 else r1);
               target_rps' = (if dname \<in> set_keys r2 HALTED \<or> dname \<in> set_keys r2 TEMP_HALTED
                              then 0 else target_rps)
           in send (SET (CURRTOKENS @ dname) target_rps') r2)"

text \<open>
  Modelled from the spec: one tick of \<^verbatim>\<open>rate_limit_regulator\<close> (section 4.4). Any response
  other than 200 skips the tick; otherwise every source is regulated in turn.
\<close>

definition regulator_tick ::
  "config \<Rightarrow> (string \<Rightarrow> tld) \<Rightarrow> response \<Rightarrow> real \<Rightarrow> redis_store \<Rightarrow> redis_store" where
  "regulator_tick cfg canon resp now r =
     (if status resp \<noteq> 200 then r else foldl (regulate cfg canon now) r (body resp))"

text \<open>The catalog response of the test (\<^verbatim>\<open>source_fixture\<close>).\<close>

definition source_fixture :: "source list" where
  "source_fixture =
     [\<lparr>source_name = ''example'', image_count = 5000000, display_name = ''Example'',
       source_url = ''example.com''\<rparr>]"

text \<open>
  A configuration, a canonicaliser and three stores for the scenarios of the test: the
  steady state, 51 server errors in the list of recent requests, and three failures among
  eleven samples scored one second before the tick at time 100.
\<close>

definition example_config :: config where
  "example_config =
     \<lparr>MIN_CRAWL_RPS = 1, MAX_CRAWL_RPS = 200, MAX_CRAWL_SIZE = 500000000,
      threshold_for_min = 2500000, TEMP_HALT_MIN_SAMPLES = 10,
      TEMP_HALT_THRESHOLD_RATIO = 1 / 4\<rparr>"

definition example_canon :: "string \<Rightarrow> tld" where
  "example_canon url =
     (if url = ''example.com'' then example_tld else \<lparr>domain = url, suffix = ''''\<rparr>)"

definition steady_store :: redis_store where
  "steady_store =
     FakeRedis\<lparr>set_keys := (\<lambda>k. if k = ''known_tlds'' then {''example.com''} else {})\<rparr>"

definition tripped_store :: redis_store where
  "tripped_store =
     steady_store\<lparr>list_keys :=
       (\<lambda>k. if k = ''statuslast50req:example.com'' then replicate 51 ''500'' else [])\<rparr>"

definition failing_store :: redis_store where
  "failing_store =
     steady_store\<lparr>sorted_sets :=
       (\<lambda>k. if k = ''status60s:example.com''
            then replicate 3 (99, 0) @ replicate 8 (99, 1) else [])\<rparr>"

definition ok_response :: response where
  "ok_response = \<lparr>status = 200, body = source_fixture\<rparr>"

section \<open>The usage report\<close>

text \<open>
  \<^verbatim>\<open>analytics/reporting.py\<close> queries the event tables through an ORM session. The table
  declarations (\<^verbatim>\<open>analytics.models\<close>) are not among the sources: each table is a list of
  rows holding the columns the report reads. Timestamps are integers. A session identifier
  may be NULL, which \<^verbatim>\<open>count(distinct ...)\<close> does not count.
\<close>

datatype DetailPageEvents =
  ATTRIBUTION_CLICKED | REUSE_SURVEY | SOURCE_CLICKED | CREATOR_CLICKED | SHARED_SOCIAL

record ResultClickedEvent =
  clicked_timestamp :: int

record DetailPageEvent =
  detail_timestamp :: int
  event_type :: DetailPageEvents

record SearchEvent =
  search_timestamp :: int
  session_uuid :: "string option"

record AttributionReferrerEvent =
  referrer_timestamp :: int

record SearchRatingEvent =
  rating_timestamp :: int
  relevant :: bool

record database =
  result_clicked_events :: "ResultClickedEvent list"
  detail_page_events :: "DetailPageEvent list"
  search_events :: "SearchEvent list"
  attribution_referrer_events :: "AttributionReferrerEvent list"
  search_rating_events :: "SearchRatingEvent list"

datatype py_exception = ZeroDivisionError | TypeError

text \<open>Python's \<^verbatim>\<open>/\<close> on two integers: the quotient as a number, or the exception.\<close>

definition truediv :: "int \<Rightarrow> int \<Rightarrow> py_exception + real" where
  "truediv a b = (if b = 0 then Inl ZeroDivisionError else Inr (real_of_int a / real_of_int b))"

text \<open>
  The \<^verbatim>\<open>avg_rating\<close> entry of the report is the query object itself: the source never asks
  it for its value.
\<close>

datatype rating_query = AvgRelevantQuery int int

record usage_report =
  results_clicked :: int
  attribution_buttonclicks :: int
  survey_responses :: int
  source_clicked :: int
  creator_clicked :: int
  shared_social :: int
  sessions :: int
  searches :: int
  attribution_referer_hits :: int
  avg_rating :: rating_query
  avg_searches_per_session :: real
  timestamp :: int

definition count_detail :: "database \<Rightarrow> int \<Rightarrow> int \<Rightarrow> DetailPageEvents \<Rightarrow> int" where
  "count_detail db start_time end_time ev =
     int (length (filter (\<lambda>e. start_time < detail_timestamp e \<and> detail_timestamp e < end_time
                              \<and> event_type e = ev) (detail_page_events db)))"

definition count_sessions :: "database \<Rightarrow> int \<Rightarrow> int \<Rightarrow> int" where
  "count_sessions db start_time end_time =
     int (length (remdups (List.map_filter
       (\<lambda>e. if start_time < search_timestamp e \<and> search_timestamp e < end_time
            then session_uuid e else None) (search_events db))))"

definition count_searches :: "database \<Rightarrow> int \<Rightarrow> int \<Rightarrow> int" where
  "count_searches db start_time end_time =
     int (length (filter (\<lambda>e. start_time < search_timestamp e \<and> search_timestamp e < end_time)
                    (search_events db)))"

definition generate_usage_report :: "database \<Rightarrow> int \<Rightarrow> int \<Rightarrow> py_exception + usage_report" where
  "generate_usage_report db start_time end_time =
     (let results_clicked' = int (length (filter
            (\<lambda>e. start_time < clicked_timestamp e \<and> clicked_timestamp e < end_time)
            (result_clicked_events db)));
          attribution_buttonclicks' = count_detail db start_time end_time ATTRIBUTION_CLICKED;
          survey_responses' = count_detail db start_time end_time REUSE_SURVEY;
          source_clicked' = count_detail db start_time end_time SOURCE_CLICKED;
          creator_clicked' = count_detail db start_time end_time CREATOR_CLICKED;
          shared_social' = count_detail db start_time end_time SHARED_SOCIAL;
          sessions' = count_sessions db start_time end_time;
          searches' = count_searches db start_time end_time;
          attribution_referer_hits' = int (length (filter
            (\<lambda>e. start_time < referrer_timestamp e \<and> referrer_timestamp e < end_time)
            (attribution_referrer_events db)));
          avg_rating' = AvgRelevantQuery start_time end_time;
          report = (\<lambda>avg.
            \<lparr>results_clicked = results_clicked',
             attribution_buttonclicks = attribution_buttonclicks',
             survey_responses = survey_responses',
             source_clicked = source_clicked',
             creator_clicked = creator_clicked',
             shared_social = shared_social',
             sessions = sessions',
             searches = searches',
             attribution_referer_hits = attribution_referer_hits',
             avg_rating = avg_rating',
             avg_searches_per_session = avg,
             timestamp = end_time\<rparr>)
      in case truediv searches' sessions' of
           Inr q \<Rightarrow> Inr (report q)
         | Inl ZeroDivisionError \<Rightarrow> Inr (report 0)
         | Inl e \<Rightarrow> Inl e)"

text \<open>
  A database with three searches in two sessions between the times 0 and 10, and none
  between 10 and 20.
\<close>

definition example_database :: database where
  "example_database =
     \<lparr>result_clicked_events = [],
      detail_page_events = [],
      search_events =
        [\<lparr>search_timestamp = 1, session_uuid = Some ''a''\<rparr>,
         \<lparr>search_timestamp = 2, session_uuid = Some ''a''\<rparr>,
         \<lparr>search_timestamp = 3, session_uuid = Some ''b''\<rparr>],
      attribution_referrer_events = [],
      search_rating_events = []\<rparr>"

section \<open>Properties of the statistics reporter\<close>

lemmas key_defs = STATUS_60s_def STATUS_1HR_def STATUS_12HR_def LAST_50_REQUESTS_def
  ERROR_COUNT_def TLD_ERRORS_def SUCCESS_COUNT_def TLD_SUCCESS_def KNOWN_TLDS_def

lemmas interval_defs = ONE_MINUTE_def ONE_HOUR_def TWELVE_HOURS_def

lemmas reporter_defs = record_error_def record_success_def record_window_samples_def
  WINDOW_PAIRS_def execute_def send_def Let_def

lemmas example_defs = StatsManager_def FakeRedis_def stale_store_def example_tld_def
  SUCCEEDED_def FAILED_def

subsection \<open>Pipelines\<close>

lemma execute_append: "execute (p @ q) r = execute q (execute p r)"
  by (simp add: execute_def)

lemma execute_Nil: "execute [] r = r"
  by (simp add: execute_def)

lemma execute_Cons: "execute (c # p) r = execute p (send c r)"
  by (simp add: execute_def)

lemma window_after_samples:
  assumes "(stat_key, interval) \<in> set WINDOW_PAIRS"
  shows "sorted_sets (execute (record_window_samples pipe d v now) r) (stat_key @ d)
           = zremrangebyscore NegInf (now - interval)
               (zadd now v (sorted_sets (execute pipe r) (stat_key @ d)))"
  using assms
  by (auto simp: WINDOW_PAIRS_def record_window_samples_def execute_append execute_Cons
        execute_Nil send_def key_defs)

lemma interval_positive: "(stat_key, interval) \<in> set WINDOW_PAIRS \<Longrightarrow> 0 < interval"
  by (auto simp: WINDOW_PAIRS_def interval_defs)

lemma trimmed_after_sample:
  "\<forall>(sc, m) \<in> set (zremrangebyscore NegInf (now - interval) (zadd now v zs)). now - interval < sc"
  by (auto simp: zremrangebyscore_def zadd_def)

lemma sample_survives:
  "0 < interval \<Longrightarrow> (now, v) \<in> set (zremrangebyscore NegInf (now - interval) (zadd now v zs))"
  by (simp add: zremrangebyscore_def zadd_def)

lemma record_success_pipe:
  "redis (record_success self t now)
     = execute (record_window_samples
                  [INCR SUCCESS_COUNT, INCR (TLD_SUCCESS @ domain t @ ''.'' @ suffix t)]
                  (domain t @ ''.'' @ suffix t) SUCCEEDED now) (redis self)"
  by (simp add: record_success_def Let_def)

lemma record_error_affecting_pipe:
  assumes "code \<noteq> Some (IntCode 404)" "code \<noteq> Some (StrCode ''UnidentifiedImageError'')"
  shows "redis (record_error self t code now)
     = execute (record_window_samples
         ([INCR ERROR_COUNT, INCR (TLD_ERRORS @ domain t @ ''.'' @ suffix t)] @
          (case code of
             None \<Rightarrow> []
           | Some c \<Rightarrow> if truthy c
               then [INCR (TLD_ERRORS @ domain t @ ''.'' @ suffix t @ '':'' @ py_str c)] else []))
         (domain t @ ''.'' @ suffix t) FAILED now) (redis self)"
proof (cases code)
  case None
  then show ?thesis by (simp add: record_error_def Let_def)
next
  case (Some c)
  with assms show ?thesis by (simp add: record_error_def Let_def)
qed

lemma record_error_benign_pipe:
  assumes "c = IntCode 404 \<or> c = StrCode ''UnidentifiedImageError''"
  shows "redis (record_error self t (Some c) now)
     = execute [INCR ERROR_COUNT, INCR (TLD_ERRORS @ domain t @ ''.'' @ suffix t),
                INCR (TLD_ERRORS @ domain t @ ''.'' @ suffix t @ '':'' @ py_str c)] (redis self)"
  using assms by (auto simp add: record_error_def Let_def)

subsection \<open>Benign errors\<close>

text \<open>
  C1. For every tld, a call \<^verbatim>\<open>record_error(tld, code)\<close> with the code 404 or
  \<^verbatim>\<open>'UnidentifiedImageError'\<close> raises the global error counter, the domain's error counter
  and the domain's counter for that code by one each, and leaves every sliding window as it
  was. With any other code, and with no code, the failure member scored \<open>now\<close> is in all
  three windows of the domain after the call.
\<close>

theorem record_error_benign_isolation:
  "((code = Some (IntCode 404) \<or> code = Some (StrCode ''UnidentifiedImageError'')) \<longrightarrow>
      (\<exists>c. code = Some c \<and>
        counters (redis (record_error self t code now)) ERROR_COUNT
          = Some (counter (redis self) ERROR_COUNT + 1) \<and>
        counters (redis (record_error self t code now)) (TLD_ERRORS @ domain t @ ''.'' @ suffix t)
          = Some (counter (redis self) (TLD_ERRORS @ domain t @ ''.'' @ suffix t) + 1) \<and>
        counters (redis (record_error self t code now))
            (TLD_ERRORS @ domain t @ ''.'' @ suffix t @ '':'' @ py_str c)
          = Some (counter (redis self)
                    (TLD_ERRORS @ domain t @ ''.'' @ suffix t @ '':'' @ py_str c) + 1) \<and>
        sorted_sets (redis (record_error self t code now)) = sorted_sets (redis self)))
   \<and> (\<not> (code = Some (IntCode 404) \<or> code = Some (StrCode ''UnidentifiedImageError'')) \<longrightarrow>
        (\<forall>(stat_key, interval) \<in> set WINDOW_PAIRS.
           (now, FAILED) \<in> set (sorted_sets (redis (record_error self t code now))
                                  (stat_key @ domain t @ ''.'' @ suffix t))))"
proof (intro conjI impI)
  assume "code = Some (IntCode 404) \<or> code = Some (StrCode ''UnidentifiedImageError'')"
  then obtain c where c: "code = Some c"
      "c = IntCode 404 \<or> c = StrCode ''UnidentifiedImageError''"
    by auto
  have "counters (redis (record_error self t (Some c) now)) ERROR_COUNT
          = Some (counter (redis self) ERROR_COUNT + 1) \<and>
        counters (redis (record_error self t (Some c) now)) (TLD_ERRORS @ domain t @ ''.'' @ suffix t)
          = Some (counter (redis self) (TLD_ERRORS @ domain t @ ''.'' @ suffix t) + 1) \<and>
        counters (redis (record_error self t (Some c) now))
            (TLD_ERRORS @ domain t @ ''.'' @ suffix t @ '':'' @ py_str c)
          = Some (counter (redis self)
                    (TLD_ERRORS @ domain t @ ''.'' @ suffix t @ '':'' @ py_str c) + 1) \<and>
        sorted_sets (redis (record_error self t (Some c) now)) = sorted_sets (redis self)"
    unfolding record_error_benign_pipe [OF c(2)]
    by (simp add: execute_def send_def key_defs counter_def)
  with c(1) show "\<exists>c. code = Some c \<and>
        counters (redis (record_error self t code now)) ERROR_COUNT
          = Some (counter (redis self) ERROR_COUNT + 1) \<and>
        counters (redis (record_error self t code now)) (TLD_ERRORS @ domain t @ ''.'' @ suffix t)
          = Some (counter (redis self) (TLD_ERRORS @ domain t @ ''.'' @ suffix t) + 1) \<and>
        counters (redis (record_error self t code now))
            (TLD_ERRORS @ domain t @ ''.'' @ suffix t @ '':'' @ py_str c)
          = Some (counter (redis self)
                    (TLD_ERRORS @ domain t @ ''.'' @ suffix t @ '':'' @ py_str c) + 1) \<and>
        sorted_sets (redis (record_error self t code now)) = sorted_sets (redis self)"
    by blast
next
  assume "\<not> (code = Some (IntCode 404) \<or> code = Some (StrCode ''UnidentifiedImageError''))"
  then have other: "code \<noteq> Some (IntCode 404)" "code \<noteq> Some (StrCode ''UnidentifiedImageError'')"
    by simp_all
  show "\<forall>(stat_key, interval) \<in> set WINDOW_PAIRS.
           (now, FAILED) \<in> set (sorted_sets (redis (record_error self t code now))
                                  (stat_key @ domain t @ ''.'' @ suffix t))"
  proof (clarify)
    fix stat_key interval
    assume w: "(stat_key, interval) \<in> set WINDOW_PAIRS"
    show "(now, FAILED) \<in> set (sorted_sets (redis (record_error self t code now))
                                  (stat_key @ domain t @ ''.'' @ suffix t))"
      unfolding record_error_affecting_pipe [OF other] window_after_samples [OF w]
      by (rule sample_survives [OF interval_positive [OF w]])
  qed
qed

theorem record_error_benign_isolation_witness:
  "counters (redis (record_error (StatsManager FakeRedis) example_tld (Some (IntCode 404)) 100))
      ''resize_errors'' = Some 1
   \<and> counters (redis (record_error (StatsManager FakeRedis) example_tld (Some (IntCode 404)) 100))
      ''resize_errors:example.com'' = Some 1
   \<and> counters (redis (record_error (StatsManager FakeRedis) example_tld (Some (IntCode 404)) 100))
      ''resize_errors:example.com:404'' = Some 1
   \<and> sorted_sets (redis (record_error (StatsManager FakeRedis) example_tld (Some (IntCode 404)) 100))
      ''status60s:example.com'' = []
   \<and> (100, 0) \<in> set (sorted_sets (redis (record_error (StatsManager FakeRedis) example_tld
      (Some (IntCode 500)) 100)) ''status60s:example.com'')
   \<and> (100, 0) \<in> set (sorted_sets (redis (record_error (StatsManager FakeRedis) example_tld
      (Some (IntCode 500)) 100)) ''status1hr:example.com'')
   \<and> (100, 0) \<in> set (sorted_sets (redis (record_error (StatsManager FakeRedis) example_tld
      (Some (IntCode 500)) 100)) ''status12hr:example.com'')"
  using record_error_benign_isolation [of "Some (IntCode 404)" "StatsManager FakeRedis"
          example_tld 100]
        record_error_benign_isolation [of "Some (IntCode 500)" "StatsManager FakeRedis"
          example_tld 100]
  by (simp add: digits.simps key_defs WINDOW_PAIRS_def counter_def example_defs)

subsection \<open>The list of recent requests\<close>

lemma nat_int_minus_50: "nat (int n - 50) = n - 50"
  by arith

lemma ltrim_last_50_eq: "ltrim (- 50) (- 1) xs = drop (length xs - 50) xs"
proof (cases "length xs \<le> 50")
  case True
  then show ?thesis by (cases "xs = []") (auto simp: ltrim_def Let_def max_def)
next
  case False
  then show ?thesis by (auto simp: ltrim_def Let_def max_def nat_int_minus_50)
qed

text \<open>The helper, had it been queued, would append the status and keep the last 50 entries.\<close>

lemma record_last_50_requests_sample_appends:
  "list_keys (execute (record_last_50_requests_sample [] dname st) r) (LAST_50_REQUESTS @ dname)
     = drop (length (list_keys r (LAST_50_REQUESTS @ dname)) + 1 - 50)
         (list_keys r (LAST_50_REQUESTS @ dname) @ [st])"
  by (simp add: record_last_50_requests_sample_def execute_def send_def ltrim_last_50_eq)

lemma record_last_50_requests_sample_length:
  "length (list_keys (execute (record_last_50_requests_sample [] dname st) r)
            (LAST_50_REQUESTS @ dname)) \<le> 50"
  by (simp add: record_last_50_requests_sample_appends)

text \<open>Neither reporter queues the helper: no list of the store changes.\<close>

lemma record_error_lists_unchanged:
  "list_keys (redis (record_error self t code now)) = list_keys (redis self)"
  by (cases code) (simp_all add: reporter_defs)

lemma record_success_lists_unchanged:
  "list_keys (redis (record_success self t now)) = list_keys (redis self)"
  by (simp add: reporter_defs)

text \<open>
  C2. Every call \<^verbatim>\<open>record_error(tld, code)\<close> should append the code to the list
  \<^verbatim>\<open>statuslast50req:{domain}\<close> and trim it to 50 entries. On a fresh store, after
  \<^verbatim>\<open>record_error\<close> for \<^verbatim>\<open>example.com\<close> with the code 500, the list is still empty.
\<close>

theorem record_error_skips_recent_requests:
  "list_keys (redis (record_error (StatsManager FakeRedis) example_tld (Some (IntCode 500)) 100))
     ''statuslast50req:example.com'' = []"
  by (simp add: record_error_lists_unchanged example_defs)

subsection \<open>Trimming of the sliding windows\<close>

text \<open>
  C3, as stated: after any reporter call every member of the domain's one-minute window has
  a score of at least \<open>now - 60\<close>. A benign error trims nothing: the member scored 0 is still
  in the window after \<^verbatim>\<open>record_error\<close> with the code 404 at time 100.
\<close>

theorem benign_error_leaves_stale_member:
  "(0, 1) \<in> set (sorted_sets (redis (record_error (StatsManager stale_store) example_tld
       (Some (IntCode 404)) 100)) ''status60s:example.com'')
   \<and> \<not> ((100::real) - 60 \<le> 0)"
  by (simp add: reporter_defs example_defs)

text \<open>
  C3, amended. After \<^verbatim>\<open>record_success\<close>, and after \<^verbatim>\<open>record_error\<close> with no code or a code
  other than 404 and \<^verbatim>\<open>'UnidentifiedImageError'\<close>, every member of each of the domain's
  three windows has a score greater than \<open>now\<close> minus the window's interval.
\<close>

theorem reporter_call_trims_windows:
  assumes "(stat_key, interval) \<in> set WINDOW_PAIRS"
  shows "(\<forall>(sc, m) \<in> set (sorted_sets (redis (record_success self t now))
                          (stat_key @ domain t @ ''.'' @ suffix t)). now - interval < sc)
     \<and> (code \<noteq> Some (IntCode 404) \<and> code \<noteq> Some (StrCode ''UnidentifiedImageError'') \<longrightarrow>
         (\<forall>(sc, m) \<in> set (sorted_sets (redis (record_error self t code now))
                          (stat_key @ domain t @ ''.'' @ suffix t)). now - interval < sc))"
proof (intro conjI impI)
  show "\<forall>(sc, m) \<in> set (sorted_sets (redis (record_success self t now))
                          (stat_key @ domain t @ ''.'' @ suffix t)). now - interval < sc"
    unfolding record_success_pipe window_after_samples [OF assms]
    by (rule trimmed_after_sample)
next
  assume other: "code \<noteq> Some (IntCode 404) \<and> code \<noteq> Some (StrCode ''UnidentifiedImageError'')"
  show "\<forall>(sc, m) \<in> set (sorted_sets (redis (record_error self t code now))
                          (stat_key @ domain t @ ''.'' @ suffix t)). now - interval < sc"
    unfolding record_error_affecting_pipe [OF conjunct1 [OF other] conjunct2 [OF other]]
      window_after_samples [OF assms]
    by (rule trimmed_after_sample)
qed

theorem reporter_call_trims_windows_witness:
  "sorted_sets (redis (record_success (StatsManager stale_store) example_tld 100))
       ''status60s:example.com'' = [(100, 1)]
   \<and> sorted_sets (redis (record_error (StatsManager stale_store) example_tld
       (Some (IntCode 500)) 100)) ''status60s:example.com'' = [(100, 0)]
   \<and> (100::real) - 60 < 100"
  using reporter_call_trims_windows [of "''status60s:''" 60 "StatsManager stale_store"
     example_tld 100 "Some (IntCode 500)"]
  by (simp add: record_error_def record_success_def record_window_samples_def
        WINDOW_PAIRS_def execute_def send_def Let_def key_defs interval_defs zadd_def
        zremrangebyscore_def example_defs)

subsection \<open>Known domains\<close>

lemma update_tlds_idem: "update_tlds (update_tlds self t) t = update_tlds self t"
  by (simp add: update_tlds_def)

text \<open>
  C8. For every tld, calling \<^verbatim>\<open>update_tlds(tld)\<close> one or more times on the same manager
  leaves the manager, that is the mirror, the store and the record of the commands the
  store has executed, exactly as one call does: the calls after the first send nothing.
\<close>

theorem update_tlds_repeated:
  "((\<lambda>s. update_tlds s t) ^^ Suc n) self = update_tlds self t
   \<and> known_tlds (((\<lambda>s. update_tlds s t) ^^ Suc n) self) = insert t (known_tlds self)
   \<and> sent (redis (((\<lambda>s. update_tlds s t) ^^ Suc n) self)) = sent (redis (update_tlds self t))"
proof -
  have eq: "((\<lambda>s. update_tlds s t) ^^ Suc n) self = update_tlds self t"
  proof (induction n)
    case 0
    show ?case by simp
  next
    case (Suc n)
    have "((\<lambda>s. update_tlds s t) ^^ Suc (Suc n)) self
            = update_tlds (((\<lambda>s. update_tlds s t) ^^ Suc n) self) t"
      by simp
    also have "\<dots> = update_tlds (update_tlds self t) t"
      using Suc.IH by simp
    finally show ?case by (simp only: update_tlds_idem)
  qed
  have "known_tlds (update_tlds self t) = insert t (known_tlds self)"
    by (auto simp: update_tlds_def)
  with eq show ?thesis by simp
qed

subsection \<open>Members of a sliding window\<close>

lemma window_ok_zadd:
  "window_ok zs \<Longrightarrow> m = SUCCEEDED \<or> m = FAILED \<Longrightarrow> window_ok (zadd sc m zs)"
  by (auto simp: window_ok_def zadd_def distinct_map_filter)

lemma window_ok_zremrangebyscore:
  "window_ok zs \<Longrightarrow> window_ok (zremrangebyscore lo hi zs)"
  by (auto simp: window_ok_def zremrangebyscore_def distinct_map_filter)

lemma window_ok_send:
  "\<forall>k. window_ok (sorted_sets r k) \<Longrightarrow> outcome_command c \<Longrightarrow>
   window_ok (sorted_sets (send c r) k)"
  by (cases c) (simp_all add: send_def window_ok_zadd window_ok_zremrangebyscore)

lemma window_ok_execute:
  "\<forall>k. window_ok (sorted_sets r k) \<Longrightarrow> list_all outcome_command pipe \<Longrightarrow>
   window_ok (sorted_sets (execute pipe r) k)"
proof (induction pipe arbitrary: r k)
  case Nil
  then show ?case by (simp add: execute_def)
next
  case (Cons c pipe)
  have "\<forall>k. window_ok (sorted_sets (send c r) k)"
    using Cons.prems by (simp add: window_ok_send)
  moreover have "list_all outcome_command pipe"
    using Cons.prems by simp
  ultimately have "window_ok (sorted_sets (execute pipe (send c r)) k)"
    by (rule Cons.IH)
  then show ?case by (simp add: execute_def)
qed

lemma outcome_record_window_samples:
  "list_all outcome_command pipe \<Longrightarrow> success = SUCCEEDED \<or> success = FAILED \<Longrightarrow>
   list_all outcome_command (record_window_samples pipe dname success now)"
  by (simp add: record_window_samples_def WINDOW_PAIRS_def)

lemma window_ok_call:
  assumes "\<forall>k. window_ok (sorted_sets (redis self) k)"
  shows "window_ok (sorted_sets (redis (call self c)) k)"
proof (cases c)
  case (RecordSuccess t now)
  then show ?thesis
    using assms
    by (simp add: record_success_def Let_def window_ok_execute outcome_record_window_samples)
next
  case (RecordError t code now)
  then show ?thesis
    using assms
    by (cases code)
       (simp_all add: record_error_def Let_def window_ok_execute outcome_record_window_samples)
next
  case (UpdateTlds t)
  then show ?thesis
    using assms by (simp add: update_tlds_def send_def)
qed

lemma window_ok_run:
  "\<forall>k. window_ok (sorted_sets (redis self) k) \<Longrightarrow>
   window_ok (sorted_sets (redis (run calls self)) k)"
proof (induction calls arbitrary: self k)
  case Nil
  then show ?case by (simp add: run_def)
next
  case (Cons c calls)
  have "\<forall>k. window_ok (sorted_sets (redis (call self c)) k)"
    using Cons.prems by (simp add: window_ok_call)
  then have "window_ok (sorted_sets (redis (run calls (call self c))) k)"
    by (rule Cons.IH)
  then show ?case by (simp add: run_def)
qed

lemma window_ok_length:
  assumes ok: "window_ok zs"
  shows "length zs \<le> 2"
proof -
  have d: "distinct (map snd zs)"
    using ok by (simp add: window_ok_def)
  have "length zs = card (snd ` set zs)"
    using distinct_card [OF d] by simp
  also have "\<dots> \<le> card {SUCCEEDED, FAILED}"
    using ok by (intro card_mono) (auto simp: window_ok_def)
  also have "\<dots> \<le> 2"
    by (simp add: card_insert_le_m1)
  finally show ?thesis .
qed

text \<open>A repeated outcome moves the score of its member; the window does not grow.\<close>

lemma zadd_repeated: "zadd sc' m (zadd sc m zs) = filter (\<lambda>(s', m'). m' \<noteq> m) zs @ [(sc', m)]"
  by (simp add: zadd_def)

text \<open>
  C9. After any history of reporter calls on a manager over a fresh store, every sorted set
  of the store holds only the members 1 (success) and 0 (failure), each at most once, hence
  at most two members.
\<close>

theorem window_has_at_most_two_members:
  "snd ` set (sorted_sets (redis (run calls (StatsManager FakeRedis))) k) \<subseteq> {SUCCEEDED, FAILED}
   \<and> distinct (map snd (sorted_sets (redis (run calls (StatsManager FakeRedis))) k))
   \<and> length (sorted_sets (redis (run calls (StatsManager FakeRedis))) k) \<le> 2"
proof -
  have "\<forall>k. window_ok (sorted_sets (redis (StatsManager FakeRedis)) k)"
    by (simp add: window_ok_def StatsManager_def FakeRedis_def)
  then have ok: "window_ok (sorted_sets (redis (run calls (StatsManager FakeRedis))) k)"
    by (rule window_ok_run)
  from ok window_ok_length [OF ok] show ?thesis
    by (simp add: window_ok_def)
qed

section \<open>Properties of the rate regulator\<close>

lemmas regulator_keys = CURRTOKENS_def HALTED_def TEMP_HALTED_def KNOWN_TLDS_def
  LAST_50_REQUESTS_def STATUS_60s_def

lemmas regulator_examples = example_config_def example_canon_def steady_store_def
  tripped_store_def failing_store_def ok_response_def FakeRedis_def example_tld_def

lemma is_server_error_500: "is_server_error ''500''"
  by (simp add: is_server_error_def status_code_def is_digit_def)

lemma hard_halt_51: "hard_halt_trips (replicate 51 ''500'')"
  by (simp add: hard_halt_trips_def HARD_HALT_SAMPLE_SIZE_def is_server_error_500)


lemma window_count_all_recent:
  assumes "\<forall>(sc, m) \<in> set zs. now - 1 \<le> sc \<and> sc \<le> now"
  shows "window_count now v zs = length (filter (\<lambda>(sc, m). m = v) zs)"
proof -
  have "filter (\<lambda>(sc, m). m = v \<and> now - ONE_MINUTE \<le> sc \<and> sc \<le> now) zs
          = filter (\<lambda>(sc, m). m = v) zs"
    using assms by (intro filter_cong) (auto simp: ONE_MINUTE_def)
  then show ?thesis by (simp add: window_count_def)
qed

lemma temp_halt_3_of_11:
  assumes "\<forall>(sc, m) \<in> set zs. now - 1 \<le> sc \<and> sc \<le> now"
    and "length (filter (\<lambda>(sc, m). m = 0) zs) = 3"
    and "length (filter (\<lambda>(sc, m). m = 1) zs) = 8"
    and "TEMP_HALT_THRESHOLD_RATIO cfg * 11 \<le> 3"
    and "TEMP_HALT_MIN_SAMPLES cfg \<le> 11"
  shows "temp_halt_trips cfg now zs"
  using assms(2-5)
  by (simp add: temp_halt_trips_def Let_def window_count_all_recent [OF assms(1)]
        FAILED_def SUCCEEDED_def)


subsection \<open>Size to rate\<close>

text \<open>
  C6. \<^verbatim>\<open>compute_crawl_rate(1)\<close> is \<^verbatim>\<open>MIN_CRAWL_RPS\<close>, \<^verbatim>\<open>compute_crawl_rate(10**9)\<close> is
  \<^verbatim>\<open>MAX_CRAWL_RPS\<close>, and \<^verbatim>\<open>compute_crawl_rate(MAX_CRAWL_SIZE / 2)\<close> differs from
  \<^verbatim>\<open>MAX_CRAWL_RPS / 2\<close> by less than 2. The constants have no value in the specification;
  the statement holds for every configuration whose threshold is at least 1 and below half
  of \<^verbatim>\<open>MAX_CRAWL_SIZE\<close>, and whose \<^verbatim>\<open>MAX_CRAWL_SIZE\<close> is at most \<open>10 ^ 9\<close>.
\<close>

theorem compute_crawl_rate_scenario:
  assumes "1 \<le> threshold_for_min cfg"
    and "threshold_for_min cfg < MAX_CRAWL_SIZE cfg / 2"
    and "MAX_CRAWL_SIZE cfg \<le> 10 ^ 9"
  shows "compute_crawl_rate cfg 1 = MIN_CRAWL_RPS cfg
     \<and> compute_crawl_rate cfg (10 ^ 9) = MAX_CRAWL_RPS cfg
     \<and> \<bar>compute_crawl_rate cfg (MAX_CRAWL_SIZE cfg / 2) - MAX_CRAWL_RPS cfg / 2\<bar> < 2"
proof -
  have pos: "0 < MAX_CRAWL_SIZE cfg" using assms by linarith
  have a: "compute_crawl_rate cfg 1 = MIN_CRAWL_RPS cfg"
    using assms by (simp add: compute_crawl_rate_def)
  have "threshold_for_min cfg < 10 ^ 9" using assms pos by linarith
  then have b: "compute_crawl_rate cfg (10 ^ 9) = MAX_CRAWL_RPS cfg"
    using assms by (simp add: compute_crawl_rate_def)
  have "\<not> MAX_CRAWL_SIZE cfg \<le> MAX_CRAWL_SIZE cfg / 2" using pos by simp
  then have "compute_crawl_rate cfg (MAX_CRAWL_SIZE cfg / 2) = MAX_CRAWL_RPS cfg / 2"
    using assms pos by (simp add: compute_crawl_rate_def)
  with a b show ?thesis by simp
qed

theorem compute_crawl_rate_scenario_witness:
  "compute_crawl_rate example_config 1 = 1
   \<and> compute_crawl_rate example_config (10 ^ 9) = 200
   \<and> \<bar>compute_crawl_rate example_config (500000000 / 2) - 200 / 2\<bar> < 2"
  using compute_crawl_rate_scenario [of example_config]
  by (simp add: example_config_def)

subsection \<open>One tick\<close>


text \<open>
  The threshold matters: a configuration that puts 5,000,000 images at the threshold and
  has the minimum rate 1 writes exactly 1.
\<close>

lemma crawl_rate_at_threshold:
  "compute_crawl_rate (example_config\<lparr>threshold_for_min := 5000000\<rparr>) 5000000 = 1"
  by (simp add: compute_crawl_rate_def example_config_def)



text \<open>
  C4. With \<^verbatim>\<open>example.com\<close> among the known domains and 51 entries \<^verbatim>\<open>"500"\<close> in
  \<^verbatim>\<open>statuslast50req:example.com\<close>, after one tick the domain is in the set \<^verbatim>\<open>halted\<close> and
  \<^verbatim>\<open>currtokens:example.com\<close> is 0.
\<close>

theorem hard_circuit_trips:
  assumes "canon ''example.com'' = example_tld"
    and "''example.com'' \<in> set_keys r KNOWN_TLDS"
    and "list_keys r ''statuslast50req:example.com'' = replicate 51 ''500''"
  shows "''example.com'' \<in> set_keys (regulator_tick cfg canon ok_response now r) HALTED
     \<and> tokens (regulator_tick cfg canon ok_response now r) ''currtokens:example.com'' = Some 0"
  using assms
  by (simp add: regulator_tick_def source_fixture_def ok_response_def regulate_def Let_def
        example_tld_def regulator_keys hard_halt_51 send_def)

theorem hard_circuit_trips_witness:
  "''example.com'' \<in> set_keys (regulator_tick example_config example_canon ok_response 100
       tripped_store) ''halted''
   \<and> tokens (regulator_tick example_config example_canon ok_response 100 tripped_store)
        ''currtokens:example.com'' = Some 0"
  using hard_circuit_trips [of example_canon tripped_store example_config 100]
  by (simp add: regulator_examples regulator_keys)

text \<open>
  C5. With \<^verbatim>\<open>example.com\<close> among the known domains and exactly three failure members and
  eight success members in \<^verbatim>\<open>status60s:example.com\<close>, all scored within the last second,
  after one tick the domain is in the set \<^verbatim>\<open>temp_halted\<close>, for every configuration under
  which three failures in eleven samples trip the breaker.
\<close>

theorem temporary_halt_trips:
  assumes "canon ''example.com'' = example_tld"
    and "''example.com'' \<in> set_keys r KNOWN_TLDS"
    and "\<forall>(sc, m) \<in> set (sorted_sets r ''status60s:example.com''). now - 1 \<le> sc \<and> sc \<le> now"
    and "length (filter (\<lambda>(sc, m). m = 0) (sorted_sets r ''status60s:example.com'')) = 3"
    and "length (filter (\<lambda>(sc, m). m = 1) (sorted_sets r ''status60s:example.com'')) = 8"
    and "TEMP_HALT_THRESHOLD_RATIO cfg * 11 \<le> 3"
    and "TEMP_HALT_MIN_SAMPLES cfg \<le> 11"
  shows "''example.com'' \<in> set_keys (regulator_tick cfg canon ok_response now r) TEMP_HALTED"
proof -
  have trips: "temp_halt_trips cfg now (sorted_sets r ''status60s:example.com'')"
    using assms(3-7) by (rule temp_halt_3_of_11)
  show ?thesis
    using assms(1,2) trips
    by (simp add: regulator_tick_def source_fixture_def ok_response_def regulate_def Let_def
          example_tld_def regulator_keys send_def)
qed

theorem temporary_halt_trips_witness:
  "''example.com'' \<in> set_keys (regulator_tick example_config example_canon ok_response 100
       failing_store) ''temp_halted''"
  using temporary_halt_trips [of example_canon failing_store 100 example_config]
  by (simp add: regulator_examples regulator_keys)

section \<open>Properties of the usage report\<close>

text \<open>
  C10. \<^verbatim>\<open>generate_usage_report\<close> never raises \<^verbatim>\<open>ZeroDivisionError\<close>: it always returns a
  report, whose \<^verbatim>\<open>avg_searches_per_session\<close> is 0 when the count of distinct sessions in the
  interval is zero and the number of searches divided by the number of sessions otherwise.
\<close>

theorem generate_usage_report_never_divides_by_zero:
  "\<exists>rep. generate_usage_report db start_time end_time = Inr rep
     \<and> sessions rep = count_sessions db start_time end_time
     \<and> searches rep = count_searches db start_time end_time
     \<and> avg_searches_per_session rep =
         (if count_sessions db start_time end_time = 0 then 0
          else real_of_int (count_searches db start_time end_time)
               / real_of_int (count_sessions db start_time end_time))"
  by (simp add: generate_usage_report_def truediv_def Let_def)

theorem generate_usage_report_never_divides_by_zero_witness:
  "map_sum id avg_searches_per_session (generate_usage_report example_database 0 10)
     = Inr (3 / 2)
   \<and> map_sum id avg_searches_per_session (generate_usage_report example_database 10 20)
     = Inr 0"
  using generate_usage_report_never_divides_by_zero [of example_database 0 10]
        generate_usage_report_never_divides_by_zero [of example_database 10 20]
  by (auto simp: example_database_def count_sessions_def count_searches_def)

end
